theory Spec2Isabelle
  imports Main
begin

section \<open>Exceptions and their textual description\<close>

text \<open>
  Source: \<^verbatim>\<open>src/api/app.py\<close>.  Every handler turns a failure into
  \<^verbatim>\<open>HTTPException(status_code=500, detail=str(e))\<close>, so the model keeps, for
  each exception, what \<^verbatim>\<open>str(e)\<close> returns.

  \<^item> \<open>Error m\<close> is an instance of \<^verbatim>\<open>Exception\<close> raised by a library call
    (the provider client, the database client, an index out of range), with
    \<^verbatim>\<open>str(e) == m\<close>.  The description may be the empty string, as for
    \<^verbatim>\<open>Exception()\<close>.
  \<^item> \<open>HTTPException c d\<close> is the framework's exception with its status code and
    detail.  It is a subclass of \<^verbatim>\<open>Exception\<close>, and its \<^verbatim>\<open>__str__\<close> is
    \<^verbatim>\<open>f"{self.status_code}: {self.detail}"\<close>.

  Only subclasses of \<^verbatim>\<open>Exception\<close> are modelled: they are what the
  \<^verbatim>\<open>except Exception\<close> clauses of the source catch.  \<open>Error\<close> does not stand
  for \<^verbatim>\<open>StopIteration\<close> or \<^verbatim>\<open>StopAsyncIteration\<close>: the first, from the
  stream's iterator, is the normal end of the loop, and either of them leaving
  an asynchronous generator is replaced by a \<^verbatim>\<open>RuntimeError\<close>, which is then
  the \<open>Error\<close> the generator raises.  The calls of the logger change nothing a
  caller or an external service sees and are left out.
\<close>

datatype exn = Error string | HTTPException nat string

text \<open>Python's \<^verbatim>\<open>str\<close> on a non-negative integer: its decimal digits.\<close>

fun str_int :: "nat \<Rightarrow> string" where
  "str_int n =
     (if n < 10 then [''0123456789'' ! n]
      else str_int (n div 10) @ [''0123456789'' ! (n mod 10)])"

declare str_int.simps [simp del]

fun str_exn :: "exn \<Rightarrow> string" where
  "str_exn (Error m) = m"
| "str_exn (HTTPException c d) = str_int c @ '': '' @ d"

section \<open>Data model\<close>

text \<open>
  A \<^verbatim>\<open>dict[str, str]\<close> is an association list in insertion order; the two
  literals the handler builds are \<^verbatim>\<open>{"role": ..., "content": ...}\<close>.
\<close>

type_synonym message = "(string \<times> string) list"

text \<open>
  \<^verbatim>\<open>class ChatRequest(BaseModel)\<close>: both optional fields admit \<^verbatim>\<open>None\<close>;
  their defaults are \<^verbatim>\<open>"gpt-4.1-mini"\<close> and \<^verbatim>\<open>[]\<close>.
\<close>

record ChatRequest =
  developer_message :: string
  user_message :: string
  model :: "string option"
  message_history :: "message list option"

text \<open>\<^verbatim>\<open>class LeaderboardEntry(BaseModel)\<close>; Python integers are unbounded.\<close>

record LeaderboardEntry =
  initials :: string
  score :: int

section \<open>The provider's streaming interface\<close>

text \<open>
  The handler reads \<^verbatim>\<open>chunk.choices[0].delta.content\<close> of every chunk: a list
  of choices, each with a delta whose content is a string or \<^verbatim>\<open>None\<close>.  The
  delta's role is carried along although the handler never reads it.
\<close>

record ChoiceDelta =
  role :: "string option"
  content :: "string option"

record Choice =
  delta :: ChoiceDelta

record ChatCompletionChunk =
  choices :: "Choice list"

text \<open>
  The keyword arguments of \<^verbatim>\<open>client.chat.completions.create\<close> (lines 114 to
  118).
\<close>

record completion_request =
  model_arg :: "string option"
  messages_arg :: "message list"
  stream_arg :: bool

text \<open>
  A provider stream is the finite sequence of chunks it delivers, followed by
  its end: \<open>None\<close> when the provider signals completion, \<open>Some e\<close> when the
  iteration raises \<open>e\<close>.  A client is what \<^verbatim>\<open>create\<close> does with a request:
  it raises, or it returns a stream.
\<close>

type_synonym provider_stream = "ChatCompletionChunk list \<times> exn option"

type_synonym client = "completion_request \<Rightarrow> exn + provider_stream"

section \<open>The chat handler\<close>

text \<open>
  Lines 102 to 111 of \<^verbatim>\<open>generate\<close>: the list starts with the developer entry,
  is extended by the history when the history is truthy (neither \<^verbatim>\<open>None\<close> nor
  empty), and the user entry is appended.  The list is local to the call and
  the request is not written to.
\<close>

definition chat_messages :: "ChatRequest \<Rightarrow> message list" where
  "chat_messages request =
     (let messages = [[(''role'', ''developer''), (''content'', developer_message request)]];
          messages = (case message_history request of
                        None \<Rightarrow> messages
                      | Some history \<Rightarrow> if history = [] then messages else messages @ history);
          messages = messages @ [[(''role'', ''user''), (''content'', user_message request)]]
      in messages)"

text \<open>
  Lines 121 to 123, the loop over the stream.  The result is the list of values
  the generator yields, in order, and how the generator ends.  Indexing an empty
  \<^verbatim>\<open>choices\<close> raises \<^verbatim>\<open>IndexError\<close>; a content of \<^verbatim>\<open>None\<close> yields
  nothing; any other content, the empty string included, is yielded.
\<close>

fun relay :: "ChatCompletionChunk list \<Rightarrow> exn option \<Rightarrow> string list \<times> exn option" where
  "relay [] ending = ([], ending)"
| "relay (chunk # stream) ending =
     (case choices chunk of
        [] \<Rightarrow> ([], Some (Error ''list index out of range''))
      | choice # _ \<Rightarrow>
          (case content (delta choice) of
             None \<Rightarrow> relay stream ending
           | Some text \<Rightarrow>
               (case relay stream ending of (yields, e) \<Rightarrow> (text # yields, e))))"

text \<open>
  What running the generator to its end does: the requests it issues to the
  provider, the values it yields in order, and the exception it raises, if any.
\<close>

record generator_run =
  requested :: "completion_request list"
  yielded :: "string list"
  raised :: "exn option"

text \<open>
  Lines 114 to 118: the arguments of the one call of \<^verbatim>\<open>create\<close>.
\<close>

definition completion_args :: "ChatRequest \<Rightarrow> completion_request" where
  "completion_args request =
     \<lparr>model_arg = model request,
      messages_arg = chat_messages request,
      stream_arg = True\<rparr>"

text \<open>
  The body of \<^verbatim>\<open>generate\<close>, lines 100 to 123: build the messages, call
  \<^verbatim>\<open>create\<close>, loop over the stream.  An exception of \<^verbatim>\<open>create\<close> or of the
  loop leaves the generator; nothing inside the generator catches it.
\<close>

definition generate :: "ChatRequest \<Rightarrow> client \<Rightarrow> generator_run" where
  "generate request client =
     (let args = completion_args request
      in case client args of
           Inl e \<Rightarrow> \<lparr>requested = [args], yielded = [], raised = Some e\<rparr>
         | Inr (stream, ending) \<Rightarrow>
             (case relay stream ending of
                (yields, e) \<Rightarrow> \<lparr>requested = [args], yielded = yields, raised = e\<rparr>))"

text \<open>
  \<^verbatim>\<open>StreamingResponse(generate(), media_type="text/plain")\<close>.  Calling a
  generator function builds the generator object and runs none of its body:
  the body runs when the framework iterates the response, after \<^verbatim>\<open>chat\<close>
  has returned.  The status code is the class's default.
\<close>

record StreamingResponse =
  body_iterator :: generator_run
  media_type :: string
  status_code :: nat

text \<open>
  Lines 92 to 131.  The first argument after the request is the outcome of
  \<^verbatim>\<open>OpenAI()\<close>, which reads the credential from the environment.  The
  \<^verbatim>\<open>try\<close> block ends at the \<^verbatim>\<open>return\<close>: the only exception that reaches
  the \<^verbatim>\<open>except\<close> clause is one raised while the client is constructed.
\<close>

definition chat :: "ChatRequest \<Rightarrow> exn + client \<Rightarrow> exn + StreamingResponse" where
  "chat request OpenAI =
     (case OpenAI of
        Inl e \<Rightarrow> Inl (HTTPException 500 (str_exn e))
      | Inr client \<Rightarrow>
          Inr \<lparr>body_iterator = generate request client,
               media_type = ''text/plain'',
               status_code = 200\<rparr>)"

section \<open>The chat handler in the store of the process\<close>

text \<open>
  Python lists are objects: \<^verbatim>\<open>messages.extend(...)\<close> and
  \<^verbatim>\<open>messages.append(...)\<close> write to the list in place, and the history of a
  request is a reference to a list that other parts of the process may hold
  too.  The store is the sequence of the list objects of the process, each at
  its address; it outlives a request.  The dictionaries inside the lists are
  never written to by the handler and are kept as values.
\<close>

type_synonym addr = nat

type_synonym heap = "message list list"

text \<open>
  A \<^verbatim>\<open>ChatRequest\<close> instance as the process holds it: the history is
  \<^verbatim>\<open>None\<close> or the address of a list object.  Whether two instances share
  that object is left open.
\<close>

record request_object =
  developer_message_field :: string
  user_message_field :: string
  model_field :: "string option"
  message_history_field :: "addr option"

text \<open>A reference of Python always points to an object of the store.\<close>

definition present :: "heap \<Rightarrow> request_object \<Rightarrow> bool" where
  "present h request =
     (case message_history_field request of None \<Rightarrow> True | Some history \<Rightarrow> history < length h)"

text \<open>The value of an instance: its fields, with the history read from the store.\<close>

definition request_value :: "heap \<Rightarrow> request_object \<Rightarrow> ChatRequest" where
  "request_value h request =
     \<lparr>developer_message = developer_message_field request,
      user_message = user_message_field request,
      model = model_field request,
      message_history =
        (case message_history_field request of None \<Rightarrow> None | Some history \<Rightarrow> Some (h ! history))\<rparr>"

text \<open>
  A list display \<^verbatim>\<open>[...]\<close> makes a new object, at an address no earlier
  object has; \<^verbatim>\<open>l.extend(other)\<close> and \<^verbatim>\<open>l.append(x)\<close> replace the content
  of the object \<open>l\<close>.
\<close>

definition list_new :: "message list \<Rightarrow> heap \<Rightarrow> addr \<times> heap" where
  "list_new xs h = (length h, h @ [xs])"

definition list_extend :: "addr \<Rightarrow> addr \<Rightarrow> heap \<Rightarrow> heap" where
  "list_extend l other h = h[l := h ! l @ h ! other]"

definition list_append :: "addr \<Rightarrow> message \<Rightarrow> heap \<Rightarrow> heap" where
  "list_append l x h = h[l := h ! l @ [x]]"

text \<open>
  Lines 102 to 111 again, on the store: the result is the address of
  \<^verbatim>\<open>messages\<close> and the store after the three statements.
\<close>

definition build_messages :: "request_object \<Rightarrow> heap \<Rightarrow> addr \<times> heap" where
  "build_messages request h =
     (case list_new [[(''role'', ''developer''), (''content'', developer_message_field request)]] h of
        (messages, h) \<Rightarrow>
          (let h = (case message_history_field request of
                      None \<Rightarrow> h
                    | Some history \<Rightarrow>
                        if h ! history = [] then h else list_extend messages history h);
               h = list_append messages
                     [(''role'', ''user''), (''content'', user_message_field request)] h
           in (messages, h)))"

text \<open>
  The body of \<^verbatim>\<open>generate\<close> on the store: \<^verbatim>\<open>create\<close> receives the list
  object \<^verbatim>\<open>messages\<close>, whose content at that moment is what is sent.  The
  result is the generator's run and the store it leaves to later requests.
\<close>

definition generate_in :: "request_object \<Rightarrow> client \<Rightarrow> heap \<Rightarrow> generator_run \<times> heap" where
  "generate_in request client h =
     (case build_messages request h of
        (messages, h) \<Rightarrow>
          (let args = \<lparr>model_arg = model_field request,
                      messages_arg = h ! messages,
                      stream_arg = True\<rparr>
           in (case client args of
                 Inl e \<Rightarrow> \<lparr>requested = [args], yielded = [], raised = Some e\<rparr>
               | Inr (stream, ending) \<Rightarrow>
                   (case relay stream ending of
                      (yields, e) \<Rightarrow> \<lparr>requested = [args], yielded = yields, raised = e\<rparr>),
               h)))"

section \<open>What the caller receives\<close>

text \<open>
  The framework's side of a request, as far as the handlers rely on it:
  \<^item> a returned value is sent as JSON with status 200;
  \<^item> a raised \<open>HTTPException c d\<close> is sent with status \<open>c\<close> and the JSON body
    \<^verbatim>\<open>{"detail": d}\<close>;
  \<^item> any other exception is sent as status 500 with the plain text
    \<^verbatim>\<open>Internal Server Error\<close>;
  \<^item> a streaming response sends its status line first and then one write per
    value the generator yields; if the generator raises, the status is already
    sent and the body ends there, incomplete.
\<close>

datatype 'a reply =
    Json_reply nat 'a
  | Detail_reply nat string
  | Plain_reply nat string
  | Stream_reply nat "string list" bool

fun respond :: "exn + 'a \<Rightarrow> 'a reply" where
  "respond (Inr v) = Json_reply 200 v"
| "respond (Inl (HTTPException c d)) = Detail_reply c d"
| "respond (Inl (Error m)) = Plain_reply 500 ''Internal Server Error''"

fun respond_stream :: "exn + StreamingResponse \<Rightarrow> unit reply" where
  "respond_stream (Inr r) =
     Stream_reply (status_code r) (yielded (body_iterator r)) (raised (body_iterator r) = None)"
| "respond_stream (Inl (HTTPException c d)) = Detail_reply c d"
| "respond_stream (Inl (Error m)) = Plain_reply 500 ''Internal Server Error''"

fun reply_status :: "'a reply \<Rightarrow> nat" where
  "reply_status (Json_reply c _) = c"
| "reply_status (Detail_reply c _) = c"
| "reply_status (Plain_reply c _) = c"
| "reply_status (Stream_reply c _ _) = c"

fun reply_detail :: "'a reply \<Rightarrow> string option" where
  "reply_detail (Detail_reply _ d) = Some d"
| "reply_detail _ = None"

text \<open>The body of a streamed reply as the caller reads it: the writes, joined.\<close>

fun stream_body :: "'a reply \<Rightarrow> string option" where
  "stream_body (Stream_reply _ writes _) = Some (concat writes)"
| "stream_body _ = None"

section \<open>The leaderboard handler\<close>

text \<open>
  The values of the dictionaries the handler sends to the database: strings and
  integers.
\<close>

datatype pyval = PyStr string | PyInt int

type_synonym row = "(string \<times> pyval) list"

text \<open>
  The database is external.  Its model is the table \<^verbatim>\<open>leaderboard\<close>, to
  which a successful insert appends its row, and the log of the requests the
  handler has issued, oldest first.
\<close>

datatype call = Insert string row | Rpc string row

record database =
  leaderboard :: "row list"
  calls :: "call list"

text \<open>
  What the handler cannot decide is a parameter: the clock behind
  \<^verbatim>\<open>datetime.now().isoformat()\<close>, whether the database refuses an insert
  (given the table and the row), and what a stored procedure answers (given the
  table, its name and its parameters): it raises, or it returns
  \<^verbatim>\<open>result.data\<close>, which is \<^verbatim>\<open>None\<close> or a sequence of rows of a shape
  \<open>'r\<close> this system does not look into.
\<close>

record 'r backend =
  now_isoformat :: string
  insert_check :: "row list \<Rightarrow> row \<Rightarrow> exn option"
  rpc_outcome :: "row list \<Rightarrow> string \<Rightarrow> row \<Rightarrow> exn + 'r list option"

text \<open>\<^verbatim>\<open>supabase.table('leaderboard').insert(r).execute()\<close>\<close>

definition insert_execute ::
  "'r backend \<Rightarrow> row \<Rightarrow> database \<Rightarrow> (exn + unit) \<times> database" where
  "insert_execute b r db =
     (let db = db\<lparr>calls := calls db @ [Insert ''leaderboard'' r]\<rparr>
      in case insert_check b (leaderboard db) r of
           Some e \<Rightarrow> (Inl e, db)
         | None \<Rightarrow> (Inr (), db\<lparr>leaderboard := leaderboard db @ [r]\<rparr>))"

text \<open>\<^verbatim>\<open>supabase.rpc(f, params).execute()\<close>\<close>

definition rpc_execute ::
  "'r backend \<Rightarrow> string \<Rightarrow> row \<Rightarrow> database \<Rightarrow> (exn + 'r list option) \<times> database" where
  "rpc_execute b f params db =
     (rpc_outcome b (leaderboard db) f params, db\<lparr>calls := calls db @ [Rpc f params]\<rparr>)"

text \<open>
  \<^verbatim>\<open>try: body  except Exception as e: handler\<close> over a body that also
  changes the state: the handler runs on the exception the body raised.
\<close>

definition try_except ::
  "(exn + 'a) \<times> 's \<Rightarrow> (exn \<Rightarrow> exn + 'a) \<Rightarrow> (exn + 'a) \<times> 's" where
  "try_except body handler =
     (case body of
        (Inl e, s) \<Rightarrow> (handler e, s)
      | (Inr v, s) \<Rightarrow> (Inr v, s))"

text \<open>
  Both \<^verbatim>\<open>except\<close> clauses of \<^verbatim>\<open>submit_score\<close> (lines 82 to 84 and 86 to
  88) log the exception and raise
  \<^verbatim>\<open>HTTPException(status_code=500, detail=str(e))\<close>.
\<close>

definition raise_500 :: "exn \<Rightarrow> exn + 'a" where
  "raise_500 e = Inl (HTTPException 500 (str_exn e))"

text \<open>The dictionary of lines 60 to 64, with the clock's reading.\<close>

definition new_row :: "LeaderboardEntry \<Rightarrow> string \<Rightarrow> row" where
  "new_row entry now =
     [(''initials'', PyStr (initials entry)),
      (''score'', PyInt (score entry)),
      (''created_at'', PyStr now)]"

text \<open>The dictionary of lines 70 to 74.\<close>

definition window_params :: "LeaderboardEntry \<Rightarrow> int \<Rightarrow> row" where
  "window_params entry window_size =
     [(''p_initials'', PyStr (initials entry)),
      (''p_score'', PyInt (score entry)),
      (''p_window_size'', PyInt window_size)]"

text \<open>
  Lines 57 to 88.  The outer \<^verbatim>\<open>try\<close> encloses the insert and the inner
  \<^verbatim>\<open>try\<close>; the inner one encloses the call of the procedure and the two
  \<^verbatim>\<open>return\<close>s.  \<^verbatim>\<open>not result.data\<close> holds for \<^verbatim>\<open>None\<close> and for the
  empty sequence.
\<close>

definition submit_score ::
  "LeaderboardEntry \<Rightarrow> 'r backend \<Rightarrow> database \<Rightarrow> (exn + 'r list) \<times> database" where
  "submit_score entry b db =
     try_except
       (case insert_execute b (new_row entry (now_isoformat b)) db of
          (Inl e, db) \<Rightarrow> (Inl e, db)
        | (Inr _, db) \<Rightarrow>
            (let window_size = 3
             in try_except
                  (case rpc_execute b ''get_leaderboard_window''
                          (window_params entry window_size) db of
                     (Inl e, db) \<Rightarrow> (Inl e, db)
                   | (Inr data, db) \<Rightarrow>
                       (case data of
                          None \<Rightarrow> (Inr [], db)
                        | Some rows \<Rightarrow> if rows = [] then (Inr [], db) else (Inr rows, db)))
                  raise_500))
       raise_500"

section \<open>The health check\<close>

text \<open>Lines 134 to 136: no parameter, no call, one \<^verbatim>\<open>return\<close>.\<close>

definition health_check :: "exn + (string \<times> string) list" where
  "health_check = Inr [(''status'', ''ok'')]"

section \<open>Notions the properties are stated with\<close>

text \<open>The history of a request as a sequence: none when the field is \<^verbatim>\<open>None\<close>.\<close>

definition history_of :: "ChatRequest \<Rightarrow> message list" where
  "history_of request = (case message_history request of None \<Rightarrow> [] | Some h \<Rightarrow> h)"

text \<open>
  A chunk carries text when it has a first choice whose delta has a content
  (that is, \<^verbatim>\<open>chunk.choices[0].delta.content is not None\<close>); \<open>text_of\<close> is
  that content.  \<open>content_is_none\<close> is the case in which line 122 skips
  the chunk: its first choice's delta has the content \<^verbatim>\<open>None\<close>.  A delta
  whose content is the empty string is not such a chunk: it carries text, the
  empty one.
\<close>

definition carries_text :: "ChatCompletionChunk \<Rightarrow> bool" where
  "carries_text chunk =
     (case choices chunk of [] \<Rightarrow> False | choice # _ \<Rightarrow> content (delta choice) \<noteq> None)"

definition content_is_none :: "ChatCompletionChunk \<Rightarrow> bool" where
  "content_is_none chunk =
     (case choices chunk of [] \<Rightarrow> False | choice # _ \<Rightarrow> content (delta choice) = None)"

definition text_of :: "ChatCompletionChunk \<Rightarrow> string" where
  "text_of chunk =
     (case choices chunk of
        [] \<Rightarrow> []
      | choice # _ \<Rightarrow> (case content (delta choice) of None \<Rightarrow> [] | Some t \<Rightarrow> t))"

text \<open>A chunk whose only choice has the given role and content.\<close>

definition chunk_with :: "string option \<Rightarrow> string option \<Rightarrow> ChatCompletionChunk" where
  "chunk_with r c = \<lparr>choices = [\<lparr>delta = \<lparr>role = r, content = c\<rparr>\<rparr>]\<rparr>"

text \<open>
  Stand-ins for the two external services, for concrete runs: a client that
  answers every request the same way, and a backend with a fixed clock whose
  insert and procedure answer the same way whatever the table holds.
\<close>

definition fixed_client :: "exn + provider_stream \<Rightarrow> client" where
  "fixed_client answer = (\<lambda>args. answer)"

definition fixed_backend :: "exn option \<Rightarrow> exn + 'r list option \<Rightarrow> 'r backend" where
  "fixed_backend refusal answer =
     \<lparr>now_isoformat = ''2025-05-01T12:00:00'',
      insert_check = (\<lambda>table r. refusal),
      rpc_outcome = (\<lambda>table f params. answer)\<rparr>"

definition empty_database :: database where
  "empty_database = \<lparr>leaderboard = [], calls = []\<rparr>"

section \<open>Auxiliary facts\<close>

lemma str_int_500: "str_int 500 = ''500''"
  by (simp add: str_int.simps)

lemma relay_text:
  "\<forall>c\<in>set stream. carries_text c \<Longrightarrow> relay stream ending = (map text_of stream, ending)"
  by (induction stream) (auto simp: carries_text_def text_of_def split: list.splits option.splits)

lemma relay_skip:
  "content_is_none c \<Longrightarrow> relay (before @ c # after) ending = relay (before @ after) ending"
  by (induction before) (auto simp: content_is_none_def split: list.splits option.splits)

lemma relay_yields_origin:
  "t \<in> set (fst (relay stream ending)) \<Longrightarrow> \<exists>c\<in>set stream. carries_text c \<and> text_of c = t"
proof (induction stream)
  case Nil
  then show ?case by simp
next
  case (Cons chunk stream)
  show ?case
  proof (cases "choices chunk")
    case Nil
    with Cons.prems show ?thesis by simp
  next
    case (Cons choice rest)
    note ch = this
    show ?thesis
    proof (cases "content (delta choice)")
      case None
      with Cons.prems ch have "t \<in> set (fst (relay stream ending))" by simp
      with Cons.IH show ?thesis by auto
    next
      case (Some str)
      with Cons.prems ch have "t = str \<or> t \<in> set (fst (relay stream ending))"
        by (auto split: prod.splits)
      then show ?thesis
      proof
        assume "t = str"
        with ch Some have "carries_text chunk \<and> text_of chunk = t"
          by (simp add: carries_text_def text_of_def)
        then show ?thesis by auto
      next
        assume "t \<in> set (fst (relay stream ending))"
        with Cons.IH show ?thesis by auto
      qed
    qed
  qed
qed

lemma chat_messages_eq: "chat_messages request =
  [(''role'', ''developer''), (''content'', developer_message request)] # history_of request @
  [[(''role'', ''user''), (''content'', user_message request)]]"
  by (simp add: chat_messages_def history_of_def Let_def split: option.splits)

lemma requested_generate: "requested (generate request client) = [completion_args request]"
  by (simp add: generate_def Let_def split: sum.splits prod.splits)

text \<open>The generator's run, by what the provider answers.\<close>

lemma generate_with_stream:
  "client (completion_args request) = Inr (stream, ending) \<Longrightarrow>
   generate request client =
     \<lparr>requested = [completion_args request],
      yielded = fst (relay stream ending),
      raised = snd (relay stream ending)\<rparr>"
  by (simp add: generate_def Let_def split: prod.splits)

lemma generate_with_failure:
  "client (completion_args request) = Inl e \<Longrightarrow>
   generate request client =
     \<lparr>requested = [completion_args request], yielded = [], raised = Some e\<rparr>"
  by (simp add: generate_def Let_def)

text \<open>What the caller receives from the chat handler, by whether a client exists.\<close>

lemma respond_stream_chat:
  "respond_stream (chat request (Inr client)) =
     Stream_reply 200 (yielded (generate request client)) (raised (generate request client) = None)"
  by (simp add: chat_def)

lemma chat_without_client:
  "respond_stream (chat request (Inl e)) = Detail_reply 500 (str_exn e)"
  by (simp add: chat_def)

lemma chat_with_client_never_500:
  "reply_status (respond_stream (chat request (Inr client))) = 200 \<and>
   reply_detail (respond_stream (chat request (Inr client))) = None"
  by (simp add: respond_stream_chat)

text \<open>
  On the store, the three statements leave every earlier object as it was and
  add one object, whose content is the list the request's value determines; so
  the run on the store is the run of \<open>generate\<close> on that value.
\<close>

lemma build_messages_result:
  assumes "present h request"
  shows "build_messages request h = (length h, h @ [chat_messages (request_value h request)])"
proof (cases "message_history_field request")
  case None
  then show ?thesis
    by (simp add: build_messages_def list_new_def list_append_def chat_messages_def
        request_value_def)
next
  case (Some history)
  with assms have "history < length h"
    by (simp add: present_def)
  with Some show ?thesis
    by (simp add: build_messages_def list_new_def list_append_def list_extend_def
        chat_messages_def request_value_def nth_append Let_def)
qed

lemma generate_in_result:
  assumes "present h request"
  shows "generate_in request client h =
           (generate (request_value h request) client,
            h @ [chat_messages (request_value h request)])"
proof -
  have "model (request_value h request) = model_field request"
    by (simp add: request_value_def)
  then show ?thesis
    using assms
    by (simp add: generate_in_def build_messages_result generate_def completion_args_def Let_def
        split: sum.splits prod.splits)
qed

lemma present_grows: "present h request \<Longrightarrow> present (h @ hs) request"
  by (auto simp: present_def split: option.splits)

lemma request_value_grows:
  "present h request \<Longrightarrow> request_value (h @ hs) request = request_value h request"
  by (auto simp: present_def request_value_def nth_append split: option.splits)

text \<open>The handler's result and the database after it, by what the insert does.\<close>

lemma submit_score_refused:
  assumes "insert_check b (leaderboard db) (new_row entry (now_isoformat b)) = Some e"
  shows "submit_score entry b db =
           (Inl (HTTPException 500 (str_exn e)),
            db\<lparr>calls := calls db @ [Insert ''leaderboard'' (new_row entry (now_isoformat b))]\<rparr>)"
  using assms
  by (simp add: submit_score_def insert_execute_def try_except_def raise_500_def Let_def)

lemma submit_score_accepted:
  assumes "insert_check b (leaderboard db) (new_row entry (now_isoformat b)) = None"
  shows "submit_score entry b db =
           ((case rpc_outcome b (leaderboard db @ [new_row entry (now_isoformat b)])
                   ''get_leaderboard_window'' (window_params entry 3) of
               Inl e \<Rightarrow> Inl (HTTPException 500 (str_exn (HTTPException 500 (str_exn e))))
             | Inr data \<Rightarrow> Inr (case data of None \<Rightarrow> [] | Some rows \<Rightarrow> rows)),
            \<lparr>leaderboard = leaderboard db @ [new_row entry (now_isoformat b)],
             calls = calls db @ [Insert ''leaderboard'' (new_row entry (now_isoformat b)),
                                 Rpc ''get_leaderboard_window'' (window_params entry 3)]\<rparr>)"
  using assms
  by (cases db)
     (auto simp: submit_score_def insert_execute_def rpc_execute_def try_except_def raise_500_def
        Let_def split: sum.splits option.splits)

text \<open>
  A failure of the procedure passes through both \<^verbatim>\<open>except\<close> clauses; a
  failure of the insert through the outer one only.
\<close>

lemma submit_score_procedure_failure:
  assumes "insert_check b (leaderboard db) (new_row entry (now_isoformat b)) = None"
      and "rpc_outcome b (leaderboard db @ [new_row entry (now_isoformat b)])
             ''get_leaderboard_window'' (window_params entry 3) = Inl e"
  shows "respond (fst (submit_score entry b db)) = Detail_reply 500 (''500: '' @ str_exn e)"
  using assms by (simp add: submit_score_accepted str_int_500)

section \<open>Properties of the chat handler\<close>

text \<open>
  Claim C1.  For every request and every client, the generator issues one
  request to the provider, and its messages are the developer entry (role
  \<^verbatim>\<open>developer\<close>) at index 0, the entries of the history in their order at the
  indices 1 to \<open>n\<close>, and the entry of the current user message (role
  \<^verbatim>\<open>user\<close>) last, whatever the history contains (and none of it when the
  history is \<^verbatim>\<open>None\<close> or empty).
\<close>

theorem provider_messages_order:
  "\<exists>args. requested (generate request client) = [args] \<and>
     messages_arg args =
       [(''role'', ''developer''), (''content'', developer_message request)] #
       history_of request @
       [[(''role'', ''user''), (''content'', user_message request)]] \<and>
     length (messages_arg args) = length (history_of request) + 2 \<and>
     messages_arg args ! 0 = [(''role'', ''developer''), (''content'', developer_message request)] \<and>
     last (messages_arg args) = [(''role'', ''user''), (''content'', user_message request)] \<and>
     (\<forall>i<length (history_of request). messages_arg args ! Suc i = history_of request ! i)"
proof -
  let ?args = "completion_args request"
  have msgs: "messages_arg ?args =
       [(''role'', ''developer''), (''content'', developer_message request)] #
       history_of request @
       [[(''role'', ''user''), (''content'', user_message request)]]"
    by (simp add: completion_args_def chat_messages_eq)
  have "\<forall>i<length (history_of request). messages_arg ?args ! Suc i = history_of request ! i"
    by (simp add: msgs nth_append)
  moreover have "last (messages_arg ?args) = [(''role'', ''user''), (''content'', user_message request)]"
    by (simp add: msgs)
  moreover have "length (messages_arg ?args) = length (history_of request) + 2"
    by (simp add: msgs)
  moreover have "messages_arg ?args ! 0 = [(''role'', ''developer''), (''content'', developer_message request)]"
    by (simp add: msgs)
  ultimately show ?thesis
    using requested_generate [of request client] msgs by blast
qed

theorem provider_messages_order_witness:
  "\<exists>args. requested (generate
       \<lparr>developer_message = ''Be brief.'', user_message = ''And now?'', model = Some ''gpt-4.1-mini'',
        message_history = Some [[(''role'', ''user''), (''content'', ''Hi'')],
                                [(''role'', ''assistant''), (''content'', ''Hello'')]]\<rparr>
       (fixed_client (Inr ([], None)))) = [args] \<and>
     messages_arg args =
       [[(''role'', ''developer''), (''content'', ''Be brief.'')],
        [(''role'', ''user''), (''content'', ''Hi'')],
        [(''role'', ''assistant''), (''content'', ''Hello'')],
        [(''role'', ''user''), (''content'', ''And now?'')]] \<and>
     messages_arg args ! Suc 0 = [(''role'', ''user''), (''content'', ''Hi'')] \<and>
     messages_arg args ! Suc 1 = [(''role'', ''assistant''), (''content'', ''Hello'')]"
  using provider_messages_order
    [of "\<lparr>developer_message = ''Be brief.'', user_message = ''And now?'', model = Some ''gpt-4.1-mini'',
        message_history = Some [[(''role'', ''user''), (''content'', ''Hi'')],
                                [(''role'', ''assistant''), (''content'', ''Hello'')]]\<rparr>"
        "fixed_client (Inr ([], None))"]
  by (auto simp: history_of_def)

text \<open>
  Claim C10.  Take the chat handler's generator in any two states of the
  process, with any two clients, on two request instances of equal value
  (equal developer message, user message, model and history content, wherever
  the history lists live).  The messages sent to the provider are the same, and
  they are the list the value determines.  The run leaves every object that
  existed before as it was, the request's own history list included, so it
  hands nothing on to later requests: after the run of any other request in
  the same process, the messages sent are still the same.
\<close>

theorem provider_messages_deterministic:
  assumes "present h1 r1" and "present h2 r2"
      and "request_value h1 r1 = request_value h2 r2"
  shows "map messages_arg (requested (fst (generate_in r1 client1 h1))) =
           map messages_arg (requested (fst (generate_in r2 client2 h2))) \<and>
         map messages_arg (requested (fst (generate_in r1 client1 h1))) =
           [[(''role'', ''developer''), (''content'', developer_message (request_value h1 r1))] #
            history_of (request_value h1 r1) @
            [[(''role'', ''user''), (''content'', user_message (request_value h1 r1))]]] \<and>
         (\<forall>a<length h1. snd (generate_in r1 client1 h1) ! a = h1 ! a) \<and>
         (\<forall>r0 client0. present h1 r0 \<longrightarrow>
            map messages_arg (requested (fst (generate_in r1 client1 (snd (generate_in r0 client0 h1))))) =
            map messages_arg (requested (fst (generate_in r1 client1 h1))))"
proof -
  have sent: "map messages_arg (requested (fst (generate_in r client h))) =
                [chat_messages (request_value h r)]" if "present h r" for r client h
    using that by (simp add: generate_in_result requested_generate completion_args_def)
  have "map messages_arg (requested (fst (generate_in r1 client1 h1))) =
          map messages_arg (requested (fst (generate_in r2 client2 h2)))"
    using assms by (simp add: sent)
  moreover have "map messages_arg (requested (fst (generate_in r1 client1 h1))) =
           [[(''role'', ''developer''), (''content'', developer_message (request_value h1 r1))] #
            history_of (request_value h1 r1) @
            [[(''role'', ''user''), (''content'', user_message (request_value h1 r1))]]]"
    using assms(1) by (simp add: sent chat_messages_eq)
  moreover have "\<forall>a<length h1. snd (generate_in r1 client1 h1) ! a = h1 ! a"
    using assms(1) by (simp add: generate_in_result nth_append)
  moreover have "\<forall>r0 client0. present h1 r0 \<longrightarrow>
            map messages_arg (requested (fst (generate_in r1 client1 (snd (generate_in r0 client0 h1))))) =
            map messages_arg (requested (fst (generate_in r1 client1 h1)))"
  proof (intro allI impI)
    fix r0 client0 assume r0: "present h1 r0"
    let ?h = "h1 @ [chat_messages (request_value h1 r0)]"
    have after: "snd (generate_in r0 client0 h1) = ?h"
      using r0 by (simp add: generate_in_result)
    have "present ?h r1"
      using assms(1) by (rule present_grows)
    then have "map messages_arg (requested (fst (generate_in r1 client1 ?h))) =
                 [chat_messages (request_value ?h r1)]"
      by (rule sent)
    also have "request_value ?h r1 = request_value h1 r1"
      using assms(1) by (rule request_value_grows)
    finally show "map messages_arg
            (requested (fst (generate_in r1 client1 (snd (generate_in r0 client0 h1))))) =
            map messages_arg (requested (fst (generate_in r1 client1 h1)))"
      using assms(1) by (simp add: after sent)
  qed
  ultimately show ?thesis by blast
qed

theorem provider_messages_deterministic_witness:
  "map messages_arg (requested (fst (generate_in
      \<lparr>developer_message_field = ''Be brief.'', user_message_field = ''Hi'',
       model_field = Some ''gpt-4.1-mini'', message_history_field = Some 0\<rparr>
      (fixed_client (Inl (Error ''boom'')))
      [[[(''role'', ''assistant''), (''content'', ''Yes?'')]]]))) =
     [[[(''role'', ''developer''), (''content'', ''Be brief.'')],
       [(''role'', ''assistant''), (''content'', ''Yes?'')],
       [(''role'', ''user''), (''content'', ''Hi'')]]] \<and>
   map messages_arg (requested (fst (generate_in
      \<lparr>developer_message_field = ''Be brief.'', user_message_field = ''Hi'',
       model_field = Some ''gpt-4.1-mini'', message_history_field = Some 1\<rparr>
      (fixed_client (Inr ([chunk_with None (Some ''Hello'')], None)))
      [[], [[(''role'', ''assistant''), (''content'', ''Yes?'')]]]))) =
     [[[(''role'', ''developer''), (''content'', ''Be brief.'')],
       [(''role'', ''assistant''), (''content'', ''Yes?'')],
       [(''role'', ''user''), (''content'', ''Hi'')]]] \<and>
   snd (generate_in
      \<lparr>developer_message_field = ''Be brief.'', user_message_field = ''Hi'',
       model_field = Some ''gpt-4.1-mini'', message_history_field = Some 0\<rparr>
      (fixed_client (Inl (Error ''boom'')))
      [[[(''role'', ''assistant''), (''content'', ''Yes?'')]]]) ! 0 =
     [[(''role'', ''assistant''), (''content'', ''Yes?'')]] \<and>
   map messages_arg (requested (fst (generate_in
      \<lparr>developer_message_field = ''Be brief.'', user_message_field = ''Hi'',
       model_field = Some ''gpt-4.1-mini'', message_history_field = Some 0\<rparr>
      (fixed_client (Inl (Error ''boom'')))
      (snd (generate_in
         \<lparr>developer_message_field = ''Be long.'', user_message_field = ''Bye'',
          model_field = None, message_history_field = Some 0\<rparr>
         (fixed_client (Inr ([], None)))
         [[[(''role'', ''assistant''), (''content'', ''Yes?'')]]]))))) =
     [[[(''role'', ''developer''), (''content'', ''Be brief.'')],
       [(''role'', ''assistant''), (''content'', ''Yes?'')],
       [(''role'', ''user''), (''content'', ''Hi'')]]]"
proof -
  let ?r1 = "\<lparr>developer_message_field = ''Be brief.'', user_message_field = ''Hi'',
       model_field = Some ''gpt-4.1-mini'', message_history_field = Some 0\<rparr>"
  let ?r2 = "\<lparr>developer_message_field = ''Be brief.'', user_message_field = ''Hi'',
       model_field = Some ''gpt-4.1-mini'', message_history_field = Some 1\<rparr>"
  let ?r0 = "\<lparr>developer_message_field = ''Be long.'', user_message_field = ''Bye'',
          model_field = None, message_history_field = Some 0\<rparr>"
  let ?h1 = "[[[(''role'', ''assistant''), (''content'', ''Yes?'')]]]"
  let ?h2 = "[[], [[(''role'', ''assistant''), (''content'', ''Yes?'')]]]"
  let ?c1 = "fixed_client (Inl (Error ''boom''))"
  let ?c2 = "fixed_client (Inr ([chunk_with None (Some ''Hello'')], None))"
  let ?c0 = "fixed_client (Inr ([], None))"
  have p1: "present ?h1 ?r1" and p2: "present ?h2 ?r2" and p0: "present ?h1 ?r0"
    by (simp_all add: present_def)
  have eq: "request_value ?h1 ?r1 = request_value ?h2 ?r2"
    by (simp add: request_value_def)
  note fact = provider_messages_deterministic [OF p1 p2 eq, of ?c1 ?c2]
  from fact have same: "map messages_arg (requested (fst (generate_in ?r1 ?c1 ?h1))) =
      map messages_arg (requested (fst (generate_in ?r2 ?c2 ?h2)))"
    by (rule conjunct1)
  from fact have "map messages_arg (requested (fst (generate_in ?r1 ?c1 ?h1))) =
      [[(''role'', ''developer''), (''content'', developer_message (request_value ?h1 ?r1))] #
       history_of (request_value ?h1 ?r1) @
       [[(''role'', ''user''), (''content'', user_message (request_value ?h1 ?r1))]]]"
    by (rule conjunct1 [OF conjunct2])
  then have sent: "map messages_arg (requested (fst (generate_in ?r1 ?c1 ?h1))) =
      [[[(''role'', ''developer''), (''content'', ''Be brief.'')],
        [(''role'', ''assistant''), (''content'', ''Yes?'')],
        [(''role'', ''user''), (''content'', ''Hi'')]]]"
    by (simp add: request_value_def history_of_def)
  from fact have "\<forall>a<length ?h1. snd (generate_in ?r1 ?c1 ?h1) ! a = ?h1 ! a"
    by blast
  then have kept: "snd (generate_in ?r1 ?c1 ?h1) ! 0 = ?h1 ! 0"
    by simp
  from fact have "\<forall>r0 client0. present ?h1 r0 \<longrightarrow>
      map messages_arg (requested (fst (generate_in ?r1 ?c1 (snd (generate_in r0 client0 ?h1))))) =
      map messages_arg (requested (fst (generate_in ?r1 ?c1 ?h1)))"
    by blast
  with p0 have later: "map messages_arg
        (requested (fst (generate_in ?r1 ?c1 (snd (generate_in ?r0 ?c0 ?h1))))) =
      map messages_arg (requested (fst (generate_in ?r1 ?c1 ?h1)))"
    by blast
  from same sent kept later show ?thesis
    by simp
qed

text \<open>
  Claim C2.  When the provider answers with a finite stream that completes and
  whose chunks all carry text, the caller receives status 200 and exactly one
  write per chunk, each the chunk's text, in the order of arrival; the body is
  their concatenation.  For the fragments \<^verbatim>\<open>Hel\<close>, \<^verbatim>\<open>lo\<close>, \<^verbatim>\<open> world\<close> the body is
  \<^verbatim>\<open>Hello world\<close>.
\<close>

theorem stream_is_concatenation:
  assumes "client (completion_args request) = Inr (stream, None)"
      and "\<forall>c\<in>set stream. carries_text c"
  shows "respond_stream (chat request (Inr client)) = Stream_reply 200 (map text_of stream) True \<and>
         stream_body (respond_stream (chat request (Inr client))) = Some (concat (map text_of stream))"
proof -
  from assms(2) have "relay stream None = (map text_of stream, None)"
    by (rule relay_text)
  with assms(1) have "generate request client =
      \<lparr>requested = [completion_args request], yielded = map text_of stream, raised = None\<rparr>"
    by (simp add: generate_with_stream)
  then show ?thesis
    by (simp add: respond_stream_chat)
qed

theorem stream_is_concatenation_witness:
  "respond_stream (chat
      \<lparr>developer_message = ''Be brief.'', user_message = ''Hi'', model = None, message_history = None\<rparr>
      (Inr (fixed_client (Inr ([chunk_with None (Some ''Hel''), chunk_with None (Some ''lo''),
                                chunk_with None (Some '' world'')], None))))) =
     Stream_reply 200 [''Hel'', ''lo'', '' world''] True \<and>
   stream_body (respond_stream (chat
      \<lparr>developer_message = ''Be brief.'', user_message = ''Hi'', model = None, message_history = None\<rparr>
      (Inr (fixed_client (Inr ([chunk_with None (Some ''Hel''), chunk_with None (Some ''lo''),
                                chunk_with None (Some '' world'')], None)))))) =
     Some ''Hello world''"
  using stream_is_concatenation
    [of "fixed_client (Inr ([chunk_with None (Some ''Hel''), chunk_with None (Some ''lo''),
                                chunk_with None (Some '' world'')], None))"
        "\<lparr>developer_message = ''Be brief.'', user_message = ''Hi'', model = None, message_history = None\<rparr>"
        "[chunk_with None (Some ''Hel''), chunk_with None (Some ''lo''), chunk_with None (Some '' world'')]"]
  by (simp add: fixed_client_def carries_text_def text_of_def chunk_with_def)

text \<open>
  Claim C5 as stated, at a role-only delta whose content is the empty string,
  between two textual deltas: line 122 tests for \<^verbatim>\<open>None\<close> only, so the empty
  string is yielded, and the caller's stream has an empty write for that delta.
\<close>

theorem empty_content_delta_is_written:
  "respond_stream (chat
      \<lparr>developer_message = ''Be brief.'', user_message = ''Hi'', model = None, message_history = None\<rparr>
      (Inr (fixed_client (Inr ([chunk_with None (Some ''Hel''), chunk_with (Some ''assistant'') (Some []),
                                chunk_with None (Some ''lo'')], None))))) =
     Stream_reply 200 [''Hel'', [], ''lo''] True"
  by (simp add: chat_def generate_def fixed_client_def chunk_with_def)

text \<open>
  Claim C5, amended.  A chunk whose delta's content is \<^verbatim>\<open>None\<close>, wherever it
  stands in the stream, leaves no trace in what the caller receives: the reply
  is the reply to the stream without that chunk, and every write is the text of
  some other chunk, one whose content is not \<^verbatim>\<open>None\<close>.  So no write, and no
  empty write, corresponds to it.
\<close>

theorem none_delta_is_dropped:
  assumes "content_is_none c"
      and "client (completion_args request) = Inr (before @ c # after, ending)"
      and "client' (completion_args request) = Inr (before @ after, ending)"
  shows "respond_stream (chat request (Inr client)) = respond_stream (chat request (Inr client')) \<and>
         (\<forall>w\<in>set (yielded (generate request client)).
            \<exists>d\<in>set (before @ after). carries_text d \<and> text_of d = w)"
proof -
  from assms(1) have same: "relay (before @ c # after) ending = relay (before @ after) ending"
    by (rule relay_skip)
  from assms(2) have run: "generate request client =
      \<lparr>requested = [completion_args request],
       yielded = fst (relay (before @ c # after) ending),
       raised = snd (relay (before @ c # after) ending)\<rparr>"
    by (rule generate_with_stream)
  from assms(3) have run': "generate request client' =
      \<lparr>requested = [completion_args request],
       yielded = fst (relay (before @ after) ending),
       raised = snd (relay (before @ after) ending)\<rparr>"
    by (rule generate_with_stream)
  have "respond_stream (chat request (Inr client)) = respond_stream (chat request (Inr client'))"
    by (simp add: respond_stream_chat run run' same)
  moreover have "\<forall>w\<in>set (yielded (generate request client)).
            \<exists>d\<in>set (before @ after). carries_text d \<and> text_of d = w"
  proof
    fix w assume "w \<in> set (yielded (generate request client))"
    then have "w \<in> set (fst (relay (before @ after) ending))"
      by (simp add: run same)
    then show "\<exists>d\<in>set (before @ after). carries_text d \<and> text_of d = w"
      by (rule relay_yields_origin)
  qed
  ultimately show ?thesis by blast
qed

theorem none_delta_is_dropped_witness:
  "respond_stream (chat
      \<lparr>developer_message = ''Be brief.'', user_message = ''Hi'', model = None, message_history = None\<rparr>
      (Inr (fixed_client (Inr ([chunk_with None (Some ''Hel''), chunk_with (Some ''assistant'') None,
                                chunk_with None (Some ''lo'')], None))))) =
     Stream_reply 200 [''Hel'', ''lo''] True"
  using none_delta_is_dropped
    [of "chunk_with (Some ''assistant'') None"
        "fixed_client (Inr ([chunk_with None (Some ''Hel''), chunk_with (Some ''assistant'') None,
                                chunk_with None (Some ''lo'')], None))"
        "\<lparr>developer_message = ''Be brief.'', user_message = ''Hi'', model = None, message_history = None\<rparr>"
        "[chunk_with None (Some ''Hel'')]" "[chunk_with None (Some ''lo'')]" None
        "fixed_client (Inr ([chunk_with None (Some ''Hel''), chunk_with None (Some ''lo'')], None))"]
  by (simp add: fixed_client_def content_is_none_def chunk_with_def chat_def generate_def)

text \<open>
  Claim C3, at three failures.  With a client at hand, the handler has returned
  its streaming response before the generator runs.  When \<^verbatim>\<open>create\<close> raises,
  when the first iteration of the stream raises, and when the iteration raises
  after one fragment, the caller receives status 200 and a body that ends
  early, not a 500 with the failure's description.
\<close>

theorem chat_failure_in_generator_is_not_500:
  "respond_stream (chat
      \<lparr>developer_message = ''Be brief.'', user_message = ''Hi'', model = None, message_history = None\<rparr>
      (Inr (fixed_client (Inl (Error ''boom''))))) = Stream_reply 200 [] False \<and>
   respond_stream (chat
      \<lparr>developer_message = ''Be brief.'', user_message = ''Hi'', model = None, message_history = None\<rparr>
      (Inr (fixed_client (Inr ([], Some (Error ''boom'')))))) = Stream_reply 200 [] False \<and>
   respond_stream (chat
      \<lparr>developer_message = ''Be brief.'', user_message = ''Hi'', model = None, message_history = None\<rparr>
      (Inr (fixed_client (Inr ([chunk_with None (Some ''Hel'')], Some (Error ''boom'')))))) =
     Stream_reply 200 [''Hel''] False"
  by (simp add: chat_def generate_def fixed_client_def chunk_with_def)

section \<open>Properties of the leaderboard handler\<close>

text \<open>
  Claim C4, at a failure of the procedure.  The inner \<^verbatim>\<open>except\<close> clause raises
  an \<^verbatim>\<open>HTTPException\<close> with the detail \<^verbatim>\<open>boom\<close>; the outer clause catches it,
  since it is an \<^verbatim>\<open>Exception\<close>, and raises another whose detail is the first
  one's \<^verbatim>\<open>str\<close>.  The caller receives the detail \<^verbatim>\<open>500: boom\<close>, not
  \<^verbatim>\<open>boom\<close>.
\<close>

theorem submit_score_rpc_failure_detail:
  "respond (fst (submit_score \<lparr>initials = ''AAA'', score = 100\<rparr>
      (fixed_backend None (Inl (Error ''boom'')) :: row backend) empty_database)) =
   Detail_reply 500 ''500: boom''"
  by (simp add: submit_score_accepted fixed_backend_def empty_database_def str_int_500)

text \<open>
  Claim C6.  For every submission, the first request the handler issues is one
  insert into \<^verbatim>\<open>leaderboard\<close> of one row with the entry's initials and score
  (and the clock's reading).  When the database accepts it, the table has
  gained exactly that row, and the only other request, issued after it, is the
  procedure \<^verbatim>\<open>get_leaderboard_window\<close> with exactly the entry's initials, the
  entry's score and the window size 3.  When the database refuses it, nothing
  else is issued.
\<close>

theorem submit_score_calls:
  "\<exists>new. calls (snd (submit_score entry b db)) =
      calls db @
      Insert ''leaderboard''
        [(''initials'', PyStr (initials entry)), (''score'', PyInt (score entry)),
         (''created_at'', PyStr (now_isoformat b))] # new \<and>
    (case insert_check b (leaderboard db) (new_row entry (now_isoformat b)) of
       Some e \<Rightarrow> new = [] \<and> leaderboard (snd (submit_score entry b db)) = leaderboard db
     | None \<Rightarrow>
         new = [Rpc ''get_leaderboard_window''
                  [(''p_initials'', PyStr (initials entry)), (''p_score'', PyInt (score entry)),
                   (''p_window_size'', PyInt 3)]] \<and>
         leaderboard (snd (submit_score entry b db)) =
           leaderboard db @
           [[(''initials'', PyStr (initials entry)), (''score'', PyInt (score entry)),
             (''created_at'', PyStr (now_isoformat b))]])"
proof (cases "insert_check b (leaderboard db) (new_row entry (now_isoformat b))")
  case None
  then show ?thesis
    by (simp add: submit_score_accepted new_row_def window_params_def)
next
  case (Some e)
  then show ?thesis
    by (simp add: submit_score_refused new_row_def)
qed

theorem submit_score_calls_witness:
  "calls (snd (submit_score \<lparr>initials = ''AAA'', score = 100\<rparr>
      (fixed_backend None (Inr None) :: row backend) empty_database)) =
     [Insert ''leaderboard''
        [(''initials'', PyStr ''AAA''), (''score'', PyInt 100),
         (''created_at'', PyStr ''2025-05-01T12:00:00'')],
      Rpc ''get_leaderboard_window''
        [(''p_initials'', PyStr ''AAA''), (''p_score'', PyInt 100), (''p_window_size'', PyInt 3)]] \<and>
   leaderboard (snd (submit_score \<lparr>initials = ''AAA'', score = 100\<rparr>
      (fixed_backend None (Inr None) :: row backend) empty_database)) =
     [[(''initials'', PyStr ''AAA''), (''score'', PyInt 100),
       (''created_at'', PyStr ''2025-05-01T12:00:00'')]]"
  using submit_score_calls
    [of "\<lparr>initials = ''AAA'', score = 100\<rparr>" "fixed_backend None (Inr None) :: row backend"
        empty_database]
  by (auto simp: fixed_backend_def empty_database_def)

text \<open>
  Claim C7 as stated, at an insert that fails with \<^verbatim>\<open>Exception()\<close>: the
  detail of the reply is the exception's description, which is empty here, so
  the caller receives a 500 with an empty detail.
\<close>

theorem empty_detail_on_refused_insert:
  "insert_check (fixed_backend (Some (Error [])) (Inr None) :: row backend)
      (leaderboard empty_database)
      (new_row \<lparr>initials = ''AAA'', score = 100\<rparr> ''2025-05-01T12:00:00'') = Some (Error []) \<and>
   respond (fst (submit_score \<lparr>initials = ''AAA'', score = 100\<rparr>
      (fixed_backend (Some (Error [])) (Inr None) :: row backend) empty_database)) =
     Detail_reply 500 []"
  by (simp add: submit_score_refused fixed_backend_def)

text \<open>
  Claim C7, amended.  When the insert fails with an exception \<open>e\<close>, the insert
  is the only request the handler issues (no procedure is called), and the
  caller receives a 500 whose detail is \<^verbatim>\<open>str(e)\<close>; the detail is non-empty
  exactly when \<^verbatim>\<open>str(e)\<close> is.
\<close>

theorem submit_score_insert_failure:
  assumes "insert_check b (leaderboard db) (new_row entry (now_isoformat b)) = Some e"
  shows "calls (snd (submit_score entry b db)) =
           calls db @ [Insert ''leaderboard'' (new_row entry (now_isoformat b))] \<and>
         respond (fst (submit_score entry b db)) = Detail_reply 500 (str_exn e) \<and>
         (reply_detail (respond (fst (submit_score entry b db))) \<noteq> Some [] \<longleftrightarrow> str_exn e \<noteq> [])"
  using assms by (simp add: submit_score_refused)

theorem submit_score_insert_failure_witness:
  "calls (snd (submit_score \<lparr>initials = ''AAA'', score = 100\<rparr>
      (fixed_backend (Some (Error ''connection refused'')) (Inr None) :: row backend)
      empty_database)) =
     [Insert ''leaderboard''
        [(''initials'', PyStr ''AAA''), (''score'', PyInt 100),
         (''created_at'', PyStr ''2025-05-01T12:00:00'')]] \<and>
   respond (fst (submit_score \<lparr>initials = ''AAA'', score = 100\<rparr>
      (fixed_backend (Some (Error ''connection refused'')) (Inr None) :: row backend)
      empty_database)) = Detail_reply 500 ''connection refused''"
  using submit_score_insert_failure
    [of "fixed_backend (Some (Error ''connection refused'')) (Inr None) :: row backend"
        empty_database "\<lparr>initials = ''AAA'', score = 100\<rparr>" "Error ''connection refused''"]
  by (simp add: fixed_backend_def empty_database_def new_row_def)

text \<open>
  Claim C8.  When the insert is accepted and the procedure, run on the table
  that holds the new row, returns \<open>data\<close>, the caller receives status 200 with
  the rows of \<open>data\<close> as they are, and with the empty sequence when \<open>data\<close> is
  \<^verbatim>\<open>None\<close>.
\<close>

theorem submit_score_returns_rows:
  assumes "insert_check b (leaderboard db) (new_row entry (now_isoformat b)) = None"
      and "rpc_outcome b (leaderboard db @ [new_row entry (now_isoformat b)])
             ''get_leaderboard_window'' (window_params entry 3) = Inr data"
  shows "respond (fst (submit_score entry b db)) =
           Json_reply 200 (case data of None \<Rightarrow> [] | Some rows \<Rightarrow> rows)"
  using assms by (simp add: submit_score_accepted)

theorem submit_score_returns_rows_witness:
  "respond (fst (submit_score \<lparr>initials = ''AAA'', score = 100\<rparr>
      (fixed_backend None
         (Inr (Some [[(''initials'', PyStr ''ZED''), (''rank'', PyInt 1)],
                     [(''initials'', PyStr ''AAA''), (''rank'', PyInt 2)]])))
      empty_database)) =
     Json_reply 200 [[(''initials'', PyStr ''ZED''), (''rank'', PyInt 1)],
                     [(''initials'', PyStr ''AAA''), (''rank'', PyInt 2)]] \<and>
   respond (fst (submit_score \<lparr>initials = ''AAA'', score = 100\<rparr>
      (fixed_backend None (Inr None) :: row backend) empty_database)) = Json_reply 200 []"
  using submit_score_returns_rows
    [of "fixed_backend None
         (Inr (Some [[(''initials'', PyStr ''ZED''), (''rank'', PyInt 1)],
                     [(''initials'', PyStr ''AAA''), (''rank'', PyInt 2)]]))"
        empty_database "\<lparr>initials = ''AAA'', score = 100\<rparr>"
        "Some [[(''initials'', PyStr ''ZED''), (''rank'', PyInt 1)],
               [(''initials'', PyStr ''AAA''), (''rank'', PyInt 2)]]"]
    submit_score_returns_rows
    [of "fixed_backend None (Inr None) :: row backend"
        empty_database "\<lparr>initials = ''AAA'', score = 100\<rparr>" None]
  by (simp add: fixed_backend_def)

section \<open>Property of the health check\<close>

text \<open>
  Claim C9.  The health check takes no input and reads no external state; it
  returns \<^verbatim>\<open>{"status": "ok"}\<close>, which the caller receives with status 200, and
  it has no failing result.
\<close>

theorem health_check_ok:
  "respond health_check = Json_reply 200 [(''status'', ''ok'')] \<and>
   reply_status (respond health_check) = 200 \<and>
   (\<exists>v. health_check = Inr v)"
  by (simp add: health_check_def)

end
